theory Spec2Isabelle
  imports Complex_Main "HOL-Library.Sublist"
begin

section \<open>The swimming-spot map component (src/src/App.tsx)\<close>

text \<open>
  The source file holds two revisions of the React component \<^verbatim>\<open>App\<close>. The second
  one (lines 157 to 401) adds logging, the \<^verbatim>\<open>mapInitialized\<close> and \<^verbatim>\<open>mapError\<close>
  state, a \<^verbatim>\<open>try/catch\<close> around the construction of the map and a guard at the
  head of the marker effect. \<^verbatim>\<open>handleSaveSpot\<close>, \<^verbatim>\<open>getColorByTransparency\<close>, the
  click handler of the map, the change handlers of the three form fields and the two
  ways of closing the dialog are the same in both revisions, logging apart. The model
  follows the second revision and gives the marker effect of the first one beside it.

  The component is modelled by explicit state passing: one record holds the React state
  cells and the refs, every handler is a function from the state before to the state
  after, and the marker effect is run by the function that commits an update, as React
  runs an effect whose dependency changed. Two things the component relies on are
  behaviour of its libraries and are modelled from their documented behaviour: the
  map widget refuses a marker position that is not a valid coordinate pair, and the
  dialog keeps its controls on the page until its exit transition has ended.
\<close>

subsection \<open>JavaScript values\<close>

text \<open>
  A JavaScript number is a double. The component never calculates with one: it compares
  \<^verbatim>\<open>transparency\<close> with the literals 10 and 5 and tests it for truthiness. The model
  therefore takes the finite values as reals (every finite double is one, and \<^verbatim>\<open>-0\<close>
  is \<^verbatim>\<open>0\<close> in both tests) and keeps the three special values apart.
\<close>

datatype number = Fin real | PosInfinity | NegInfinity | NaN

text \<open>The operator \<^verbatim>\<open>a > b\<close>: false as soon as one side is \<^verbatim>\<open>NaN\<close>.\<close>

fun gt :: "number \<Rightarrow> number \<Rightarrow> bool" where
  "gt (Fin a) (Fin b) = (b < a)"
| "gt (Fin a) NegInfinity = True"
| "gt PosInfinity (Fin b) = True"
| "gt PosInfinity NegInfinity = True"
| "gt _ _ = False"

text \<open>Truthiness of a number: \<^verbatim>\<open>0\<close> and \<^verbatim>\<open>NaN\<close> are falsy.\<close>

fun truthyNumber :: "number \<Rightarrow> bool" where
  "truthyNumber (Fin a) = (a \<noteq> 0)"
| "truthyNumber PosInfinity = True"
| "truthyNumber NegInfinity = True"
| "truthyNumber NaN = False"

text \<open>
  \<^verbatim>\<open>Date.now().toString()\<close>: the decimal digits of a count of milliseconds, a natural
  number well below the range where JavaScript switches to exponent notation.
\<close>

function toString :: "nat \<Rightarrow> string" where
  "toString n =
     (if n < 10 then [''0123456789'' ! n]
      else toString (n div 10) @ [''0123456789'' ! (n mod 10)])"
  by pat_completeness auto
termination
  by (relation "measure (\<lambda>n. n)") auto

declare toString.simps [simp del]

subsection \<open>Data\<close>

datatype cleanliness = Low | Medium | High

text \<open>
  \<^verbatim>\<open>interface SwimmingSpot\<close>. The two coordinates are optional in the model: the record
  is built with \<^verbatim>\<open>newSpot.longitude!\<close> and \<^verbatim>\<open>newSpot.latitude!\<close>, and the non-null
  assertion is erased by the compiler, so a coordinate the draft does not have is
  copied as \<^verbatim>\<open>undefined\<close> (\<open>None\<close>).
\<close>

record swimmingSpot =
  id' :: string
  name :: string
  transparency :: number
  cleanliness :: cleanliness
  longitude :: "number option"
  latitude :: "number option"

text \<open>
  \<^verbatim>\<open>Partial<SwimmingSpot>\<close>, the type of the draft: every field may be absent
  (\<open>None\<close> is \<^verbatim>\<open>undefined\<close>).
\<close>

record partialSpot =
  id_opt :: "string option"
  name_opt :: "string option"
  transparency_opt :: "number option"
  cleanliness_opt :: "cleanliness option"
  longitude_opt :: "number option"
  latitude_opt :: "number option"

definition emptyPartial :: partialSpot where
  "emptyPartial =
     \<lparr>id_opt = None, name_opt = None, transparency_opt = None, cleanliness_opt = None,
      longitude_opt = None, latitude_opt = None\<rparr>"

text \<open>
  The object spread \<^verbatim>\<open>{ ...newSpot }\<close> of a draft that may be \<^verbatim>\<open>null\<close>: spreading
  \<^verbatim>\<open>null\<close> gives the empty object.
\<close>

definition spread :: "partialSpot option \<Rightarrow> partialSpot" where
  "spread ns = (case ns of None \<Rightarrow> emptyPartial | Some d \<Rightarrow> d)"

text \<open>
  What a call of the map widget throws: the \<^verbatim>\<open>Error\<close> of an invalid coordinate pair, and
  the \<^verbatim>\<open>TypeError\<close> of a call on \<^verbatim>\<open>null\<close>.
\<close>

datatype error = InvalidLngLat | NullMap

text \<open>
  A marker as the effect builds it: the background colour of its element, the position
  given to \<^verbatim>\<open>setLngLat\<close>, and the three values interpolated into the HTML of its popup
  (name, transparency, cleanliness).
\<close>

record marker =
  backgroundColor :: string
  lngLat :: "number option \<times> number option"
  popup :: "string \<times> number \<times> cleanliness"

text \<open>
  The map widget, as far as the component acts on it: the markers added to it by
  \<^verbatim>\<open>addTo\<close>, in the order of the calls, and whether \<^verbatim>\<open>remove()\<close> was called.
\<close>

record mapboxMap =
  markers :: "marker list"
  removed :: bool

text \<open>
  The state of the component: the five \<^verbatim>\<open>useState\<close> cells and the three refs
  (\<^verbatim>\<open>map.current\<close>, \<^verbatim>\<open>mapInitializedRef.current\<close>, and whether \<^verbatim>\<open>mapContainer.current\<close>
  is attached). \<open>None\<close> is \<^verbatim>\<open>null\<close>. Two more fields belong to the libraries:
  \<open>exited\<close> is the state cell of the dialog that says that the dialog is not on the page
  (it is closed and its exit transition has ended), and \<open>uncaught\<close> is the error that
  left an effect with nothing to catch it, after which React removes the component.
\<close>

record app_state =
  spots :: "swimmingSpot list"
  newSpot :: "partialSpot option"
  isDialogOpen :: bool
  mapInitialized :: bool
  mapError :: "string option"
  map_current :: "mapboxMap option"
  mapInitializedRef :: bool
  mapContainer_current :: bool
  exited :: bool
  uncaught :: "error option"

text \<open>The state of the first render, the container ref attached by React.\<close>

definition initial :: app_state where
  "initial =
     \<lparr>spots = [], newSpot = None, isDialogOpen = False, mapInitialized = False,
      mapError = None, map_current = None, mapInitializedRef = False,
      mapContainer_current = True, exited = True, uncaught = None\<rparr>"

subsection \<open>The marker colour and the marker effect\<close>

definition getColorByTransparency :: "number \<Rightarrow> string" where
  "getColorByTransparency t =
     (if gt t (Fin 10) then ''#00ff00''
      else if gt t (Fin 5) then ''#ffff00''
      else ''#ff0000'')"

definition markerOf :: "swimmingSpot \<Rightarrow> marker" where
  "markerOf spot =
     \<lparr>backgroundColor = getColorByTransparency (transparency spot),
      lngLat = (longitude spot, latitude spot),
      popup = (name spot, transparency spot, cleanliness spot)\<rparr>"

text \<open>
  What \<^verbatim>\<open>setLngLat\<close> of the map widget accepts. The pair is converted with \<^verbatim>\<open>Number\<close>,
  which turns \<^verbatim>\<open>undefined\<close> into \<^verbatim>\<open>NaN\<close>; the call throws when one of the two is
  \<^verbatim>\<open>NaN\<close> and when the latitude is not between -90 and 90.
\<close>

fun validLngLat :: "number option \<Rightarrow> number option \<Rightarrow> bool" where
  "validLngLat (Some lng) (Some (Fin y)) = (lng \<noteq> NaN \<and> - 90 \<le> y \<and> y \<le> 90)"
| "validLngLat _ _ = False"

definition validSpot :: "swimmingSpot \<Rightarrow> bool" where
  "validSpot spot = validLngLat (longitude spot) (latitude spot)"

text \<open>
  One turn of the \<^verbatim>\<open>forEach\<close> loop: a marker is built, positioned and added to the map;
  when \<^verbatim>\<open>setLngLat\<close> throws, nothing is added.
\<close>

definition addMarker :: "swimmingSpot \<Rightarrow> mapboxMap \<Rightarrow> error + mapboxMap" where
  "addMarker spot m =
     (if validSpot spot then Inr (m\<lparr>markers := markers m @ [markerOf spot]\<rparr>)
      else Inl InvalidLngLat)"

text \<open>
  The loop: it stops at the first turn that throws, and the markers added before stay
  on the map. The result is the map and the error, if any.
\<close>

fun addMarkers :: "swimmingSpot list \<Rightarrow> mapboxMap \<Rightarrow> mapboxMap \<times> error option" where
  "addMarkers [] m = (m, None)"
| "addMarkers (spot # rest) m =
     (case addMarker spot m of
        Inl e \<Rightarrow> (m, Some e)
      | Inr m' \<Rightarrow> addMarkers rest m')"

text \<open>
  The effect with dependency \<^verbatim>\<open>[spots]\<close> (second revision): it returns at once when
  \<^verbatim>\<open>map.current\<close> is \<^verbatim>\<open>null\<close>, and walks the list otherwise. Nothing catches what
  the loop throws.
\<close>

definition spotsEffect :: "app_state \<Rightarrow> app_state" where
  "spotsEffect s =
     (case map_current s of
        None \<Rightarrow> s
      | Some m \<Rightarrow>
          (case addMarkers (spots s) m of
             (m', None) \<Rightarrow> s\<lparr>map_current := Some m'\<rparr>
           | (m', Some e) \<Rightarrow> s\<lparr>map_current := Some m', uncaught := Some e\<rparr>))"

text \<open>
  The same effect in the first revision, which has no guard: without a map the first
  turn of the loop throws, in \<^verbatim>\<open>setLngLat\<close> when the position is invalid and in
  \<^verbatim>\<open>addTo(map.current!)\<close>, a call on \<^verbatim>\<open>null\<close>, otherwise.
\<close>

definition spotsEffect1 :: "app_state \<Rightarrow> app_state" where
  "spotsEffect1 s =
     (case map_current s of
        None \<Rightarrow>
          (case spots s of
             [] \<Rightarrow> s
           | spot # rest \<Rightarrow>
               s\<lparr>uncaught := Some (if validSpot spot then NullMap else InvalidLngLat)\<rparr>)
      | Some m \<Rightarrow>
          (case addMarkers (spots s) m of
             (m', None) \<Rightarrow> s\<lparr>map_current := Some m'\<rparr>
           | (m', Some e) \<Rightarrow> s\<lparr>map_current := Some m', uncaught := Some e\<rparr>))"

subsection \<open>Setting up and tearing down the map\<close>

text \<open>
  What \<^verbatim>\<open>new mapboxgl.Map(...)\<close> does is an input of the model: it returns a map, or it
  throws an \<^verbatim>\<open>Error\<close> with a message, or it throws some other value.
\<close>

datatype thrown = ErrorObject string | OtherValue

datatype construction = Constructed | Throws thrown

definition unknownError :: string where
  "unknownError = ''An unknown error occurred''"

definition initializeMap :: "construction \<Rightarrow> app_state \<Rightarrow> app_state" where
  "initializeMap c s =
     (if mapInitializedRef s \<or> \<not> mapContainer_current s then s
      else
        (case c of
           Constructed \<Rightarrow> s\<lparr>map_current := Some \<lparr>markers = [], removed = False\<rparr>\<rparr>
         | Throws e \<Rightarrow>
             s\<lparr>mapError :=
                 Some (case e of ErrorObject m \<Rightarrow> m | OtherValue \<Rightarrow> unknownError)\<rparr>))"

text \<open>
  The first commit runs both effects in the order of the source: the set-up of the map,
  then the marker effect.
\<close>

definition mount :: "construction \<Rightarrow> app_state \<Rightarrow> app_state" where
  "mount c s = spotsEffect (initializeMap c s)"

text \<open>The clean-up of the set-up effect.\<close>

definition unmount :: "app_state \<Rightarrow> app_state" where
  "unmount s =
     (case map_current s of
        None \<Rightarrow> s
      | Some m \<Rightarrow>
          if mapInitializedRef s
          then s\<lparr>map_current := Some (m\<lparr>removed := True\<rparr>), mapInitializedRef := False\<rparr>
          else s)"

subsection \<open>The handlers\<close>

definition onMapLoad :: "app_state \<Rightarrow> app_state" where
  "onMapLoad s = s\<lparr>mapInitialized := True, mapInitializedRef := True\<rparr>"

text \<open>
  The argument is \<^verbatim>\<open>e.error.message\<close>, which may be \<^verbatim>\<open>undefined\<close>; the operator
  \<^verbatim>\<open>||\<close> replaces it, and the empty string, by the fixed text.
\<close>

definition onMapError :: "string option \<Rightarrow> app_state \<Rightarrow> app_state" where
  "onMapError msg s =
     s\<lparr>mapError :=
         Some (case msg of
                 None \<Rightarrow> unknownError
               | Some m \<Rightarrow> if m = [] then unknownError else m)\<rparr>"

definition onMapClick :: "number \<Rightarrow> number \<Rightarrow> app_state \<Rightarrow> app_state" where
  "onMapClick lng lat s =
     s\<lparr>newSpot := Some (emptyPartial\<lparr>longitude_opt := Some lng, latitude_opt := Some lat\<rparr>),
       isDialogOpen := True\<rparr>"

definition onNameChange :: "string \<Rightarrow> app_state \<Rightarrow> app_state" where
  "onNameChange v s = s\<lparr>newSpot := Some ((spread (newSpot s))\<lparr>name_opt := Some v\<rparr>)\<rparr>"

text \<open>
  The argument is the value of \<^verbatim>\<open>Number(e.target.value)\<close>, the conversion being
  JavaScript's own: an empty field gives \<^verbatim>\<open>0\<close>.
\<close>

definition onTransparencyChange :: "number \<Rightarrow> app_state \<Rightarrow> app_state" where
  "onTransparencyChange v s =
     s\<lparr>newSpot := Some ((spread (newSpot s))\<lparr>transparency_opt := Some v\<rparr>)\<rparr>"

definition onCleanlinessChange :: "cleanliness \<Rightarrow> app_state \<Rightarrow> app_state" where
  "onCleanlinessChange v s =
     s\<lparr>newSpot := Some ((spread (newSpot s))\<lparr>cleanliness_opt := Some v\<rparr>)\<rparr>"

text \<open>The Cancel button and the dialog's \<^verbatim>\<open>onClose\<close>: both only close the dialog.\<close>

definition onCancel :: "app_state \<Rightarrow> app_state" where
  "onCancel s = s\<lparr>isDialogOpen := False\<rparr>"

definition onClose :: "app_state \<Rightarrow> app_state" where
  "onClose s = s\<lparr>isDialogOpen := False\<rparr>"

text \<open>
  The dialog of the component library sets its cell \<open>exited\<close> to false when it enters
  the page and to true when its exit transition has ended.
\<close>

definition onEnter :: "app_state \<Rightarrow> app_state" where
  "onEnter s = s\<lparr>exited := False\<rparr>"

definition onExited :: "app_state \<Rightarrow> app_state" where
  "onExited s = s\<lparr>exited := True\<rparr>"

text \<open>
  The condition of \<^verbatim>\<open>handleSaveSpot\<close>,
  \<^verbatim>\<open>newSpot && newSpot.name && newSpot.transparency && newSpot.cleanliness\<close>, by
  JavaScript's truthiness: \<^verbatim>\<open>null\<close>, \<^verbatim>\<open>undefined\<close>, the empty string, \<^verbatim>\<open>0\<close> and
  \<^verbatim>\<open>NaN\<close> are falsy; each of the three cleanliness strings is truthy.
\<close>

definition saveGuard :: "partialSpot option \<Rightarrow> bool" where
  "saveGuard ns =
     (case ns of
        None \<Rightarrow> False
      | Some d \<Rightarrow>
          (case name_opt d of None \<Rightarrow> False | Some n \<Rightarrow> n \<noteq> []) \<and>
          (case transparency_opt d of None \<Rightarrow> False | Some t \<Rightarrow> truthyNumber t) \<and>
          (case cleanliness_opt d of None \<Rightarrow> False | Some c \<Rightarrow> True))"

text \<open>
  \<^verbatim>\<open>handleSaveSpot\<close>; the argument \<open>now\<close> is the value of \<^verbatim>\<open>Date.now()\<close>. The three
  state updates of the successful branch are batched by React into one update.
\<close>

definition handleSaveSpot :: "nat \<Rightarrow> app_state \<Rightarrow> app_state" where
  "handleSaveSpot now s =
     (case newSpot s of
        None \<Rightarrow> s
      | Some d \<Rightarrow>
          (case name_opt d of
             None \<Rightarrow> s
           | Some n \<Rightarrow>
               if n = [] then s
               else
                 (case transparency_opt d of
                    None \<Rightarrow> s
                  | Some t \<Rightarrow>
                      if \<not> truthyNumber t then s
                      else
                        (case cleanliness_opt d of
                           None \<Rightarrow> s
                         | Some c \<Rightarrow>
                             s\<lparr>spots :=
                                 spots s @
                                 [\<lparr>id' = toString now, name = n, transparency = t,
                                   cleanliness = c, longitude = longitude_opt d,
                                   latitude = latitude_opt d\<rparr>],
                               isDialogOpen := False,
                               newSpot := None\<rparr>))))"

subsection \<open>Events and sessions\<close>

datatype event =
    MapLoad
  | MapErrorEvent "string option"
  | MapClick number number
  | NameChange string
  | TransparencyChange number
  | CleanlinessChange cleanliness
  | CancelClick
  | DialogClose
  | SaveClick nat
  | DialogEnter
  | DialogExited

fun handle :: "event \<Rightarrow> app_state \<Rightarrow> app_state" where
  "handle MapLoad s = onMapLoad s"
| "handle (MapErrorEvent msg) s = onMapError msg s"
| "handle (MapClick lng lat) s = onMapClick lng lat s"
| "handle (NameChange v) s = onNameChange v s"
| "handle (TransparencyChange v) s = onTransparencyChange v s"
| "handle (CleanlinessChange v) s = onCleanlinessChange v s"
| "handle CancelClick s = onCancel s"
| "handle DialogClose s = onClose s"
| "handle (SaveClick now) s = handleSaveSpot now s"
| "handle DialogEnter s = onEnter s"
| "handle DialogExited s = onExited s"

text \<open>
  Committing an update: React runs the marker effect again when \<^verbatim>\<open>spots\<close> is a new
  array. The only call of \<^verbatim>\<open>setSpots\<close> passes a fresh array that is longer than the
  old one, so that the array is new exactly when the list differs.
\<close>

definition commit :: "app_state \<Rightarrow> app_state \<Rightarrow> app_state" where
  "commit old new = (if spots new = spots old then new else spotsEffect new)"

definition dispatch :: "event \<Rightarrow> app_state \<Rightarrow> app_state" where
  "dispatch e s = commit s (handle e s)"

text \<open>
  When an event can occur. The three listeners of the map exist once the map object
  does. The dialog enters the page when it is open, and its exit transition ends when
  it is closed and still on the page. The controls of the dialog (the three fields,
  Cancel, Save, and the closing by \<^verbatim>\<open>onClose\<close>) are live while the dialog is on the page:
  while \<^verbatim>\<open>isDialogOpen\<close> holds, and after it for as long as the exit transition lasts.
\<close>

fun enabled :: "event \<Rightarrow> app_state \<Rightarrow> bool" where
  "enabled MapLoad s = (map_current s \<noteq> None)"
| "enabled (MapErrorEvent msg) s = (map_current s \<noteq> None)"
| "enabled (MapClick lng lat) s = (map_current s \<noteq> None)"
| "enabled DialogEnter s = isDialogOpen s"
| "enabled DialogExited s = (\<not> isDialogOpen s \<and> \<not> exited s)"
| "enabled e s = (isDialogOpen s \<or> \<not> exited s)"

definition step :: "event \<Rightarrow> app_state \<Rightarrow> app_state" where
  "step e s = (if enabled e s then dispatch e s else s)"

text \<open>
  A run of events. After an error that nothing caught the component is gone, and the
  events that follow find no handler.
\<close>

fun run :: "event list \<Rightarrow> app_state \<Rightarrow> app_state" where
  "run [] s = s"
| "run (e # es) s = (if uncaught s \<noteq> None then s else run es (step e s))"

text \<open>A session: the component is mounted, then the events arrive one by one.\<close>

definition session :: "construction \<Rightarrow> event list \<Rightarrow> app_state" where
  "session c evs = run evs (mount c initial)"

text \<open>The markers added to the map so far (none when there is no map).\<close>

definition markersAdded :: "app_state \<Rightarrow> marker list" where
  "markersAdded s = (case map_current s of None \<Rightarrow> [] | Some m \<Rightarrow> markers m)"

text \<open>
  The number of successful saves of a run: the clicks on Save that found the condition
  of \<^verbatim>\<open>handleSaveSpot\<close> true.
\<close>

fun isSave :: "event \<Rightarrow> bool" where
  "isSave (SaveClick now) = True"
| "isSave e = False"

fun successfulSaves :: "event list \<Rightarrow> app_state \<Rightarrow> nat" where
  "successfulSaves [] s = 0"
| "successfulSaves (e # es) s =
     (if uncaught s \<noteq> None then 0
      else
        (if isSave e \<and> enabled e s \<and> saveGuard (newSpot s) then 1 else 0) +
        successfulSaves es (step e s))"

text \<open>
  What the marker effect has added after it ran once for every length of the list from 1
  to the present one: the markers of the first spot, then those of the first two spots,
  and so on.
\<close>

definition prefixMarkers :: "swimmingSpot list \<Rightarrow> marker list" where
  "prefixMarkers xs = concat (map (\<lambda>k. map markerOf (take k xs)) [1..<Suc (length xs)])"

text \<open>
  Two facts that hold from the mount on. Without a map object the dialog is closed and
  not on the page, and the list is empty. And as long as every stored record has a
  valid position, the markers on the map are those of \<open>prefixMarkers\<close> and no error
  has left the marker effect.
\<close>

definition consistent :: "app_state \<Rightarrow> bool" where
  "consistent s \<longleftrightarrow>
     (map_current s = None \<longrightarrow> \<not> isDialogOpen s \<and> exited s \<and> spots s = []) \<and>
     (list_all validSpot (spots s) \<longrightarrow>
        markersAdded s = prefixMarkers (spots s) \<and> uncaught s = None)"

text \<open>A stored record the condition of \<^verbatim>\<open>handleSaveSpot\<close> has let through.\<close>

definition accepted :: "swimmingSpot \<Rightarrow> bool" where
  "accepted r \<longleftrightarrow> name r \<noteq> [] \<and> truthyNumber (transparency r)"

subsection \<open>Example inputs\<close>

text \<open>
  A click on the map at longitude 24, latitude 60, followed by the three fields of the
  dialog being filled in, with transparency \<open>t\<close>.
\<close>

definition fillLakeA :: "number \<Rightarrow> event list" where
  "fillLakeA t =
     [MapClick (Fin 24) (Fin 60), NameChange ''Lake A'', TransparencyChange t,
      CleanlinessChange High]"

text \<open>
  The dialog is opened by a click on the map, the draft is filled in, and Cancel is
  clicked.
\<close>

definition fillAndCancel :: "event list" where
  "fillAndCancel =
     [MapClick (Fin 24) (Fin 60), DialogEnter, NameChange ''Lake A'',
      TransparencyChange (Fin 12), CleanlinessChange High, CancelClick]"

text \<open>
  A spot is entered and saved, and a second one is entered and saved while the exit
  transition of the dialog still shows the form: no click on the map comes between,
  so that the second draft has no coordinates.
\<close>

definition saveDuringExit :: "event list" where
  "saveDuringExit =
     [MapClick (Fin 24) (Fin 60), DialogEnter, NameChange ''Lake A'',
      TransparencyChange (Fin 12), CleanlinessChange High, SaveClick 1000,
      NameChange ''Pond B'', TransparencyChange (Fin 7), CleanlinessChange Low,
      SaveClick 2000]"

text \<open>Two spots entered and saved one after the other.\<close>

definition twoSaves :: "event list" where
  "twoSaves =
     fillLakeA (Fin 12) @ [SaveClick 1000] @
     [MapClick (Fin 25) (Fin 61), NameChange ''Pond B'', TransparencyChange (Fin 7),
      CleanlinessChange Low, SaveClick 2000]"

section \<open>Basic facts\<close>

subsection \<open>The condition of the save and the marker effect\<close>

lemma addMarkers_valid:
  "list_all validSpot xs \<Longrightarrow>
     addMarkers xs m = (m\<lparr>markers := markers m @ map markerOf xs\<rparr>, None)"
  by (induction xs arbitrary: m) (simp_all add: addMarker_def)

lemma truthyNumber_iff: "truthyNumber t \<longleftrightarrow> t \<noteq> Fin 0 \<and> t \<noteq> NaN"
  by (cases t) auto

lemma saveGuard_iff:
  "saveGuard ns \<longleftrightarrow>
     (\<exists>d n t c. ns = Some d \<and> name_opt d = Some n \<and> n \<noteq> [] \<and>
        transparency_opt d = Some t \<and> truthyNumber t \<and> cleanliness_opt d = Some c)"
  by (auto simp add: saveGuard_def split: option.splits)

lemma handleSaveSpot_rejects: "\<not> saveGuard (newSpot s) \<Longrightarrow> handleSaveSpot now s = s"
  by (auto simp add: handleSaveSpot_def saveGuard_def split: option.splits)

lemma handleSaveSpot_accepts:
  assumes "newSpot s = Some d" "name_opt d = Some n" "n \<noteq> []"
    "transparency_opt d = Some t" "truthyNumber t" "cleanliness_opt d = Some c"
  shows "handleSaveSpot now s =
     s\<lparr>spots := spots s @
          [\<lparr>id' = toString now, name = n, transparency = t, cleanliness = c,
            longitude = longitude_opt d, latitude = latitude_opt d\<rparr>],
       isDialogOpen := False, newSpot := None\<rparr>"
  using assms by (simp add: handleSaveSpot_def)

lemma spots_spotsEffect: "spots (spotsEffect s) = spots s"
  by (simp add: spotsEffect_def split: option.splits prod.splits)

lemma newSpot_spotsEffect: "newSpot (spotsEffect s) = newSpot s"
  by (simp add: spotsEffect_def split: option.splits prod.splits)

lemma isDialogOpen_spotsEffect: "isDialogOpen (spotsEffect s) = isDialogOpen s"
  by (simp add: spotsEffect_def split: option.splits prod.splits)

lemma exited_spotsEffect: "exited (spotsEffect s) = exited s"
  by (simp add: spotsEffect_def split: option.splits prod.splits)

lemma mapError_spotsEffect: "mapError (spotsEffect s) = mapError s"
  by (simp add: spotsEffect_def split: option.splits prod.splits)

lemma spotsEffect_no_map: "map_current s = None \<Longrightarrow> spotsEffect s = s"
  by (simp add: spotsEffect_def)

lemma spotsEffect_valid:
  "map_current s = Some m \<Longrightarrow> list_all validSpot (spots s) \<Longrightarrow>
     spotsEffect s = s\<lparr>map_current := Some (m\<lparr>markers := markers m @ map markerOf (spots s)\<rparr>)\<rparr>"
  by (simp add: spotsEffect_def addMarkers_valid)

lemma map_current_spotsEffect_None: "map_current (spotsEffect s) = None \<longleftrightarrow> map_current s = None"
  by (simp add: spotsEffect_def split: option.splits prod.splits)

lemma markersAdded_no_effect: "map_current s' = map_current s \<Longrightarrow> markersAdded s' = markersAdded s"
  by (simp add: markersAdded_def)

lemma spots_commit: "spots (commit old new) = spots new"
  by (simp add: commit_def spots_spotsEffect)

lemma commit_same: "spots new = spots old \<Longrightarrow> commit old new = new"
  by (simp add: commit_def)

subsection \<open>What a handler does to the spot list\<close>

lemmas handler_defs =
  onMapLoad_def onMapError_def onMapClick_def onNameChange_def onTransparencyChange_def
  onCleanlinessChange_def onCancel_def onClose_def onEnter_def onExited_def

lemma spots_handle_cases:
  "spots (handle e s) = spots s \<or> (\<exists>r. spots (handle e s) = spots s @ [r])"
proof (cases e)
  case (SaveClick now)
  show ?thesis
  proof (cases "saveGuard (newSpot s)")
    case True
    then obtain d n t c where "newSpot s = Some d" "name_opt d = Some n" "n \<noteq> []"
      "transparency_opt d = Some t" "truthyNumber t" "cleanliness_opt d = Some c"
      by (auto simp add: saveGuard_iff)
    from handleSaveSpot_accepts [OF this] SaveClick show ?thesis by simp
  next
    case False
    with SaveClick show ?thesis by (simp add: handleSaveSpot_rejects)
  qed
qed (simp_all add: handler_defs)

lemma spots_handle_other:
  "(\<forall>now. e \<noteq> SaveClick now) \<Longrightarrow> spots (handle e s) = spots s"
  by (cases e) (simp_all add: handler_defs)

lemma dispatch_other:
  "(\<forall>now. e \<noteq> SaveClick now) \<Longrightarrow> dispatch e s = handle e s"
  by (simp add: dispatch_def commit_same spots_handle_other)

lemma dispatch_save_rejects:
  "\<not> saveGuard (newSpot s) \<Longrightarrow> dispatch (SaveClick now) s = s"
  by (simp add: dispatch_def handleSaveSpot_rejects commit_def)

lemma dispatch_save_accepts:
  "saveGuard (newSpot s) \<Longrightarrow>
     dispatch (SaveClick now) s = spotsEffect (handleSaveSpot now s) \<and>
     (\<exists>r. spots (handleSaveSpot now s) = spots s @ [r] \<and> name r \<noteq> [] \<and>
          truthyNumber (transparency r)) \<and>
     \<not> isDialogOpen (handleSaveSpot now s) \<and> newSpot (handleSaveSpot now s) = None \<and>
     map_current (handleSaveSpot now s) = map_current s \<and>
     uncaught (handleSaveSpot now s) = uncaught s \<and>
     exited (handleSaveSpot now s) = exited s"
proof -
  assume "saveGuard (newSpot s)"
  then obtain d n t c where *: "newSpot s = Some d" "name_opt d = Some n" "n \<noteq> []"
      "transparency_opt d = Some t" "truthyNumber t" "cleanliness_opt d = Some c"
    by (auto simp add: saveGuard_iff)
  show ?thesis
    by (simp add: dispatch_def commit_def handleSaveSpot_accepts [OF *] *)
qed

subsection \<open>Runs\<close>

lemma run_crashed: "uncaught s \<noteq> None \<Longrightarrow> run evs s = s"
  by (cases evs) simp_all

lemma run_append: "run (es @ fs) s = run fs (run es s)"
  by (induction es arbitrary: s) (simp_all add: run_crashed)

lemma step_save:
  "step (SaveClick now) s =
     (if (isDialogOpen s \<or> \<not> exited s) \<and> saveGuard (newSpot s)
      then spotsEffect (handleSaveSpot now s) else s)"
  using dispatch_save_accepts [of s now]
  by (simp add: step_def dispatch_save_rejects)

lemma step_other:
  "(\<forall>now. e \<noteq> SaveClick now) \<Longrightarrow> step e s = (if enabled e s then handle e s else s)"
  by (simp add: step_def dispatch_other)

lemma spots_step_other: "(\<forall>now. e \<noteq> SaveClick now) \<Longrightarrow> spots (step e s) = spots s"
  by (simp add: step_other spots_handle_other)

lemma map_current_handle: "map_current (handle e s) = map_current s"
  by (cases e) (simp_all add: handler_defs handleSaveSpot_def split: option.splits)

lemma uncaught_handle: "uncaught (handle e s) = uncaught s"
  by (cases e) (simp_all add: handler_defs handleSaveSpot_def split: option.splits)

lemma markersAdded_handle: "markersAdded (handle e s) = markersAdded s"
  by (simp add: markersAdded_def map_current_handle)

subsection \<open>The spot list of a session\<close>

lemma spots_mount: "spots (mount c s) = spots s"
  by (cases c) (simp_all add: mount_def spots_spotsEffect initializeMap_def)

lemma spots_unmount: "spots (unmount s) = spots s"
  by (simp add: unmount_def split: option.splits)

lemma spots_dispatch: "spots (dispatch e s) = spots (handle e s)"
  by (simp add: dispatch_def spots_commit)

lemma spots_step_cases:
  "spots (step e s) = spots s \<or> (\<exists>r. spots (step e s) = spots s @ [r])"
  using spots_handle_cases [of e s] by (simp add: step_def spots_dispatch)

lemma prefix_spots_run: "prefix (spots s) (spots (run evs s))"
proof (induction evs arbitrary: s)
  case Nil
  show ?case by simp
next
  case (Cons e es)
  show ?case
  proof (cases "uncaught s \<noteq> None")
    case True
    then show ?thesis by simp
  next
    case False
    have "prefix (spots s) (spots (step e s))"
      using spots_step_cases [of e s] by auto
    also have "prefix (spots (step e s)) (spots (run (e # es) s))"
      using Cons [of "step e s"] False by simp
    finally show ?thesis .
  qed
qed

lemma accepted_handle:
  assumes "\<forall>r\<in>set (spots s). accepted r"
  shows "\<forall>r\<in>set (spots (handle e s)). accepted r"
proof (cases "\<exists>now. e = SaveClick now \<and> saveGuard (newSpot s)")
  case True
  then obtain now where "e = SaveClick now" "saveGuard (newSpot s)"
    by auto
  with dispatch_save_accepts [of s now] assms show ?thesis
    by (auto simp add: accepted_def)
next
  case False
  then have "spots (handle e s) = spots s"
    by (cases e) (auto simp add: handler_defs handleSaveSpot_rejects)
  with assms show ?thesis by simp
qed

lemma accepted_step:
  "\<forall>r\<in>set (spots s). accepted r \<Longrightarrow> \<forall>r\<in>set (spots (step e s)). accepted r"
  using accepted_handle [of s e] by (simp add: step_def spots_dispatch)

lemma accepted_run:
  "\<forall>r\<in>set (spots s). accepted r \<Longrightarrow> \<forall>r\<in>set (spots (run evs s)). accepted r"
proof (induction evs arbitrary: s)
  case Nil
  then show ?case by simp
next
  case (Cons e es)
  from Cons.IH [OF accepted_step [OF Cons.prems]] Cons.prems show ?case
    by simp
qed

lemma accepted_session: "\<forall>r\<in>set (spots (session c evs)). accepted r"
  by (rule accepted_run [of "mount c initial" evs, folded session_def])
    (simp add: spots_mount initial_def)

lemma length_spots_run:
  "length (spots (run evs s)) = length (spots s) + successfulSaves evs s"
proof (induction evs arbitrary: s)
  case Nil
  show ?case by simp
next
  case (Cons e es)
  show ?case
  proof (cases "uncaught s \<noteq> None")
    case True
    then show ?thesis by simp
  next
    case False
    have "length (spots (step e s)) =
        length (spots s) + (if isSave e \<and> enabled e s \<and> saveGuard (newSpot s) then 1 else 0)"
    proof (cases "\<forall>now. e \<noteq> SaveClick now")
      case True
      then have "\<not> isSave e" by (cases e) simp_all
      with True show ?thesis by (simp add: spots_step_other)
    next
      case False
      then obtain now where "e = SaveClick now" by auto
      then show ?thesis
        using dispatch_save_accepts [of s now]
        by (auto simp add: step_save spots_spotsEffect)
    qed
    with Cons [of "step e s"] False show ?thesis by simp
  qed
qed

subsection \<open>The markers of a session\<close>

lemma prefixMarkers_Nil: "prefixMarkers [] = []"
  by (simp add: prefixMarkers_def)

lemma prefixMarkers_snoc:
  "prefixMarkers (xs @ [x]) = prefixMarkers xs @ map markerOf (xs @ [x])"
proof -
  let ?n = "length xs"
  let ?f = "\<lambda>k. map markerOf (take k (xs @ [x]))"
  have a: "[1..<Suc (length (xs @ [x]))] = [1..<Suc ?n] @ [Suc ?n]"
    by simp
  have b: "map ?f [1..<Suc ?n] = map (\<lambda>k. map markerOf (take k xs)) [1..<Suc ?n]"
    by (rule map_cong) auto
  have "prefixMarkers (xs @ [x]) = concat (map ?f ([1..<Suc ?n] @ [Suc ?n]))"
    unfolding prefixMarkers_def a ..
  also have "\<dots> = concat (map ?f [1..<Suc ?n]) @ ?f (Suc ?n)"
    by (simp del: upt_Suc)
  also have "\<dots> = prefixMarkers xs @ map markerOf (xs @ [x])"
    unfolding b prefixMarkers_def by (simp del: upt_Suc)
  finally show ?thesis .
qed

lemma length_prefixMarkers: "length (prefixMarkers xs) = (\<Sum>k = 1..length xs. k)"
  by (induction xs rule: rev_induct) (simp_all add: prefixMarkers_Nil prefixMarkers_snoc)

lemma consistent_step_other:
  assumes "consistent s" "\<forall>now. e \<noteq> SaveClick now"
  shows "consistent (step e s)"
proof (cases "enabled e s")
  case False
  with assms show ?thesis by (simp add: step_def)
next
  case True
  have st: "step e s = handle e s"
    using True assms(2) by (simp add: step_other)
  obtain m where m: "map_current s = Some m"
    using assms(1) True by (cases e) (auto simp add: consistent_def)
  show ?thesis
    using assms m
    by (simp add: st consistent_def markersAdded_handle map_current_handle
        spots_handle_other uncaught_handle)
qed

lemma consistent_step_save:
  assumes "consistent s"
  shows "consistent (step (SaveClick now) s)"
proof (cases "(isDialogOpen s \<or> \<not> exited s) \<and> saveGuard (newSpot s)")
  case False
  with assms show ?thesis by (auto simp add: step_save)
next
  case True
  then obtain m where m: "map_current s = Some m"
    using assms by (auto simp add: consistent_def)
  from True dispatch_save_accepts [of s now]
  obtain r where r: "spots (handleSaveSpot now s) = spots s @ [r]"
    and mc: "map_current (handleSaveSpot now s) = map_current s"
    and un: "uncaught (handleSaveSpot now s) = uncaught s"
    by auto
  have st: "step (SaveClick now) s = spotsEffect (handleSaveSpot now s)"
    using True by (simp add: step_save)
  have "list_all validSpot (spots s @ [r]) \<longrightarrow>
      markersAdded (spotsEffect (handleSaveSpot now s)) = prefixMarkers (spots s @ [r]) \<and>
      uncaught (spotsEffect (handleSaveSpot now s)) = None"
  proof
    assume v: "list_all validSpot (spots s @ [r])"
    then have "markersAdded s = prefixMarkers (spots s)" "uncaught s = None"
      using assms by (simp_all add: consistent_def)
    moreover have "spotsEffect (handleSaveSpot now s) =
        (handleSaveSpot now s)\<lparr>map_current :=
           Some (m\<lparr>markers := markers m @ map markerOf (spots s @ [r])\<rparr>)\<rparr>"
      using spotsEffect_valid [of "handleSaveSpot now s" m] v m by (simp add: mc r)
    ultimately show "markersAdded (spotsEffect (handleSaveSpot now s)) =
        prefixMarkers (spots s @ [r]) \<and> uncaught (spotsEffect (handleSaveSpot now s)) = None"
      using m by (simp add: markersAdded_def prefixMarkers_snoc un)
  qed
  then show ?thesis
    using m by (simp add: st consistent_def map_current_spotsEffect_None mc spots_spotsEffect r)
qed

lemma consistent_step: "consistent s \<Longrightarrow> consistent (step e s)"
  by (cases "\<forall>now. e \<noteq> SaveClick now")
    (auto simp add: consistent_step_other consistent_step_save)

lemma consistent_run: "consistent s \<Longrightarrow> consistent (run evs s)"
  by (induction evs arbitrary: s) (simp_all add: consistent_step)

lemma consistent_mount: "consistent (mount c initial)"
  by (cases c)
    (simp_all add: consistent_def mount_def initializeMap_def initial_def spotsEffect_def
      markersAdded_def prefixMarkers_Nil)

lemma consistent_session: "consistent (session c evs)"
  by (simp add: session_def consistent_run consistent_mount)

text \<open>
  In every session whose stored records all have a valid position, the marker effect
  has added the markers of the first spot, then those of the first two, and so on:
  \<open>1 + 2 + ... + n\<close> markers after \<open>n\<close> successful saves.
\<close>

lemma markers_of_valid_session:
  assumes "list_all validSpot (spots (session c evs))"
  shows "markersAdded (session c evs) = prefixMarkers (spots (session c evs))"
    and "length (markersAdded (session c evs)) =
      (\<Sum>k = 1..successfulSaves evs (mount c initial). k)"
    and "uncaught (session c evs) = None"
proof -
  have c: "consistent (session c evs)"
    by (rule consistent_session)
  have n: "length (spots (session c evs)) = successfulSaves evs (mount c initial)"
    using length_spots_run [of evs "mount c initial"]
    by (simp add: session_def spots_mount initial_def)
  show "markersAdded (session c evs) = prefixMarkers (spots (session c evs))"
    and "uncaught (session c evs) = None"
    using c assms by (simp_all add: consistent_def)
  then show "length (markersAdded (session c evs)) =
      (\<Sum>k = 1..successfulSaves evs (mount c initial). k)"
    using n by (simp add: length_prefixMarkers)
qed

subsection \<open>The stored error is read by no handler\<close>

lemma spotsEffect_mapError_update:
  "spotsEffect (s\<lparr>mapError := x\<rparr>) = (spotsEffect s)\<lparr>mapError := x\<rparr>"
  by (simp add: spotsEffect_def split: option.splits prod.splits)

lemma handle_mapError_update:
  "(\<forall>msg. e \<noteq> MapErrorEvent msg) \<Longrightarrow>
     handle e (s\<lparr>mapError := x\<rparr>) = (handle e s)\<lparr>mapError := x\<rparr>"
  by (cases e) (auto simp add: handler_defs handleSaveSpot_def split: option.splits)

lemma dispatch_mapError_update:
  "(\<forall>msg. e \<noteq> MapErrorEvent msg) \<Longrightarrow>
     dispatch e (s\<lparr>mapError := x\<rparr>) = (dispatch e s)\<lparr>mapError := x\<rparr>"
  by (simp add: dispatch_def commit_def handle_mapError_update spotsEffect_mapError_update)

lemma enabled_mapError_update: "enabled e (s\<lparr>mapError := x\<rparr>) = enabled e s"
  by (cases e) simp_all

subsection \<open>The marker effect of the first revision\<close>

lemma spotsEffect1_with_map:
  "map_current s \<noteq> None \<Longrightarrow> spotsEffect1 s = spotsEffect s"
  by (auto simp add: spotsEffect1_def spotsEffect_def)

subsection \<open>A session without a map\<close>

lemma mount_Throws_initial:
  "mount (Throws x) initial =
     initial\<lparr>mapError :=
        Some (case x of ErrorObject m \<Rightarrow> m | OtherValue \<Rightarrow> unknownError)\<rparr>"
  by (simp add: mount_def initializeMap_def initial_def spotsEffect_def)

text \<open>
  After a failed construction there is no map object and so no listener for clicks:
  the dialog cannot be opened, and no event changes the state.
\<close>

lemma failed_init_inert: "session (Throws x) evs = mount (Throws x) initial"
proof -
  have "run evs (mount (Throws x) initial) = mount (Throws x) initial"
  proof (induction evs)
    case Nil
    show ?case by simp
  next
    case (Cons e es)
    have "\<not> enabled e (mount (Throws x) initial)"
      unfolding mount_Throws_initial by (cases e) (simp_all add: initial_def)
    then have "step e (mount (Throws x) initial) = mount (Throws x) initial"
      by (simp add: step_def)
    with Cons show ?case by simp
  qed
  then show ?thesis by (simp add: session_def)
qed

subsection \<open>The example sessions\<close>

text \<open>The definitions that evaluate a session on given events.\<close>

lemmas model_defs =
  session_def step_def dispatch_def commit_def mount_def unmount_def
  initializeMap_def initial_def spotsEffect_def handler_defs handleSaveSpot_def
  saveGuard_def emptyPartial_def spread_def markersAdded_def addMarker_def validSpot_def
  markerOf_def getColorByTransparency_def unknownError_def

lemma session_fillLakeA:
  "session Constructed (fillLakeA t) =
     initial
     \<lparr>newSpot :=
        Some \<lparr>id_opt = None, name_opt = Some ''Lake A'', transparency_opt = Some t,
              cleanliness_opt = Some High, longitude_opt = Some (Fin 24),
              latitude_opt = Some (Fin 60)\<rparr>,
      isDialogOpen := True,
      map_current := Some \<lparr>markers = [], removed = False\<rparr>\<rparr>"
  by (simp add: fillLakeA_def model_defs)

lemma session_fillLakeA_save:
  "session Constructed (fillLakeA (Fin 12) @ [SaveClick 1000]) =
     initial
     \<lparr>spots :=
        [\<lparr>id' = ''1000'', name = ''Lake A'', transparency = Fin 12, cleanliness = High,
          longitude = Some (Fin 24), latitude = Some (Fin 60)\<rparr>],
      map_current :=
        Some \<lparr>markers =
                [\<lparr>backgroundColor = ''#00ff00'', lngLat = (Some (Fin 24), Some (Fin 60)),
                  popup = (''Lake A'', Fin 12, High)\<rparr>],
              removed = False\<rparr>\<rparr>"
  by (simp add: fillLakeA_def model_defs toString.simps)

lemma session_twoSaves:
  "spots (session Constructed twoSaves) =
        [\<lparr>id' = ''1000'', name = ''Lake A'', transparency = Fin 12, cleanliness = High,
          longitude = Some (Fin 24), latitude = Some (Fin 60)\<rparr>,
         \<lparr>id' = ''2000'', name = ''Pond B'', transparency = Fin 7, cleanliness = Low,
          longitude = Some (Fin 25), latitude = Some (Fin 61)\<rparr>]"
  by (simp add: twoSaves_def fillLakeA_def model_defs toString.simps)

lemma successfulSaves_twoSaves: "successfulSaves twoSaves (mount Constructed initial) = 2"
  by (simp add: twoSaves_def fillLakeA_def model_defs toString.simps)

section \<open>The claims\<close>

subsection \<open>Saving a spot\<close>

text \<open>
  Claim C1, as amended. For every draft, \<^verbatim>\<open>handleSaveSpot\<close> appends exactly one record to
  the spot list, built from the draft, when the draft's name is a non-empty string, its
  transparency is a number other than \<^verbatim>\<open>0\<close> and \<^verbatim>\<open>NaN\<close>, its cleanliness is set and
  both coordinates are present. It leaves the spot list as it was when there is no
  draft or one of the three fields is missing: unset, an empty name, a transparency of
  \<^verbatim>\<open>0\<close> or \<^verbatim>\<open>NaN\<close>. Nothing is stated of a draft that has the three fields and lacks a
  coordinate.
\<close>

theorem save_appends_when_fields_truthy:
  "(newSpot s = Some d \<and> name_opt d = Some n \<and> n \<noteq> [] \<and>
    transparency_opt d = Some t \<and> t \<noteq> Fin 0 \<and> t \<noteq> NaN \<and>
    cleanliness_opt d = Some c \<and>
    longitude_opt d = Some lng \<and> latitude_opt d = Some lat \<longrightarrow>
      spots (handleSaveSpot now s) =
        spots s @
        [\<lparr>id' = toString now, name = n, transparency = t, cleanliness = c,
          longitude = Some lng, latitude = Some lat\<rparr>]) \<and>
   (newSpot s = None \<or>
    (\<exists>d. newSpot s = Some d \<and>
       (name_opt d = None \<or> name_opt d = Some [] \<or>
        transparency_opt d = None \<or> transparency_opt d = Some (Fin 0) \<or>
        transparency_opt d = Some NaN \<or> cleanliness_opt d = None)) \<longrightarrow>
      spots (handleSaveSpot now s) = spots s)"
proof (intro conjI impI)
  assume "newSpot s = Some d \<and> name_opt d = Some n \<and> n \<noteq> [] \<and>
    transparency_opt d = Some t \<and> t \<noteq> Fin 0 \<and> t \<noteq> NaN \<and> cleanliness_opt d = Some c \<and>
    longitude_opt d = Some lng \<and> latitude_opt d = Some lat"
  then show "spots (handleSaveSpot now s) =
        spots s @
        [\<lparr>id' = toString now, name = n, transparency = t, cleanliness = c,
          longitude = Some lng, latitude = Some lat\<rparr>]"
    by (simp add: handleSaveSpot_accepts truthyNumber_iff)
next
  assume "newSpot s = None \<or>
    (\<exists>d. newSpot s = Some d \<and>
       (name_opt d = None \<or> name_opt d = Some [] \<or>
        transparency_opt d = None \<or> transparency_opt d = Some (Fin 0) \<or>
        transparency_opt d = Some NaN \<or> cleanliness_opt d = None))"
  then have "\<not> saveGuard (newSpot s)"
    by (auto simp add: saveGuard_def)
  then show "spots (handleSaveSpot now s) = spots s"
    by (simp add: handleSaveSpot_rejects)
qed

text \<open>
  The theorem at the spec's example (name "Lake A", transparency 12, cleanliness high,
  entered after a click at 24, 60), and at the state before any click, where there is
  no draft.
\<close>

theorem save_appends_when_fields_truthy_witness:
  "spots (handleSaveSpot 1000 (session Constructed (fillLakeA (Fin 12)))) =
     [\<lparr>id' = ''1000'', name = ''Lake A'', transparency = Fin 12, cleanliness = High,
       longitude = Some (Fin 24), latitude = Some (Fin 60)\<rparr>] \<and>
   spots (handleSaveSpot 1000 initial) = []"
proof -
  let ?s = "session Constructed (fillLakeA (Fin 12))"
  let ?d = "\<lparr>id_opt = None, name_opt = Some ''Lake A'', transparency_opt = Some (Fin 12),
             cleanliness_opt = Some High, longitude_opt = Some (Fin 24),
             latitude_opt = Some (Fin 60)\<rparr>"
  have h: "newSpot ?s = Some ?d \<and> name_opt ?d = Some ''Lake A'' \<and> ''Lake A'' \<noteq> [] \<and>
      transparency_opt ?d = Some (Fin 12) \<and> Fin 12 \<noteq> Fin 0 \<and> Fin 12 \<noteq> NaN \<and>
      cleanliness_opt ?d = Some High \<and>
      longitude_opt ?d = Some (Fin 24) \<and> latitude_opt ?d = Some (Fin 60)"
    by (simp add: session_fillLakeA)
  have "spots (handleSaveSpot 1000 ?s) =
      spots ?s @
      [\<lparr>id' = toString 1000, name = ''Lake A'', transparency = Fin 12, cleanliness = High,
        longitude = Some (Fin 24), latitude = Some (Fin 60)\<rparr>]"
    using save_appends_when_fields_truthy
      [of ?s ?d "''Lake A''" "Fin 12" High "Fin 24" "Fin 60" 1000] h
    by blast
  moreover have "spots (handleSaveSpot 1000 initial) = spots initial"
    using save_appends_when_fields_truthy [of initial _ _ _ _ _ _ 1000]
    by (simp add: initial_def)
  ultimately show ?thesis
    by (simp add: session_fillLakeA initial_def toString.simps)
qed

text \<open>
  Claim C1 as it is written fails where a field is present with a falsy value. After a
  click on the map the user enters the name "Lake A", the transparency 0 and the
  cleanliness high: name, transparency, cleanliness and both coordinates are present in
  the draft, and saving appends nothing.
\<close>

theorem save_zero_transparency_counterexample:
  "newSpot (session Constructed (fillLakeA (Fin 0))) =
     Some \<lparr>id_opt = None, name_opt = Some ''Lake A'', transparency_opt = Some (Fin 0),
           cleanliness_opt = Some High, longitude_opt = Some (Fin 24),
           latitude_opt = Some (Fin 60)\<rparr> \<and>
   isDialogOpen (session Constructed (fillLakeA (Fin 0))) \<and>
   spots (session Constructed (fillLakeA (Fin 0))) = [] \<and>
   spots (handleSaveSpot 1000 (session Constructed (fillLakeA (Fin 0)))) = [] \<and>
   spots (step (SaveClick 1000) (session Constructed (fillLakeA (Fin 0)))) = []"
  by (simp add: session_fillLakeA initial_def step_def dispatch_def commit_def
      handleSaveSpot_def)

subsection \<open>The marker colour\<close>

text \<open>
  Claim C2. For every numeric transparency, \<^verbatim>\<open>getColorByTransparency\<close> returns green
  (\<^verbatim>\<open>#00ff00\<close>) above 10, yellow (\<^verbatim>\<open>#ffff00\<close>) above 5 and up to 10, and red
  (\<^verbatim>\<open>#ff0000\<close>) otherwise, which takes in \<^verbatim>\<open>NaN\<close> and minus infinity; 12 gives green,
  7 yellow and 3 red.
\<close>

theorem getColorByTransparency_bands:
  "(10 < x \<longrightarrow> getColorByTransparency (Fin x) = ''#00ff00'') \<and>
   (5 < x \<and> x \<le> 10 \<longrightarrow> getColorByTransparency (Fin x) = ''#ffff00'') \<and>
   (x \<le> 5 \<longrightarrow> getColorByTransparency (Fin x) = ''#ff0000'') \<and>
   getColorByTransparency PosInfinity = ''#00ff00'' \<and>
   getColorByTransparency NegInfinity = ''#ff0000'' \<and>
   getColorByTransparency NaN = ''#ff0000'' \<and>
   getColorByTransparency (Fin 12) = ''#00ff00'' \<and>
   getColorByTransparency (Fin 7) = ''#ffff00'' \<and>
   getColorByTransparency (Fin 3) = ''#ff0000''"
  by (simp add: getColorByTransparency_def)

text \<open>The three bands at 11, at the boundary 10 and at the boundary 5.\<close>

theorem getColorByTransparency_bands_witness:
  "(10::real) < 11 \<and> getColorByTransparency (Fin 11) = ''#00ff00'' \<and>
   (5::real) < 10 \<and> (10::real) \<le> 10 \<and> getColorByTransparency (Fin 10) = ''#ffff00'' \<and>
   (5::real) \<le> 5 \<and> getColorByTransparency (Fin 5) = ''#ff0000''"
  using getColorByTransparency_bands [of 11] getColorByTransparency_bands [of 10]
    getColorByTransparency_bands [of 5]
  by simp

subsection \<open>The marker effect\<close>

text \<open>
  Claim C3. Whenever the spot list changes, the marker effect walks the whole list and
  adds a new marker for every spot, after the markers that are on the map already, none
  of which is removed, so that after \<open>n\<close> successful saves the number of markers added
  to the map is \<open>1 + 2 + ... + n\<close>. The component does so in every session whose
  stored records all have a valid position (\<open>markers_of_valid_session\<close>). It does not
  in the session below: a spot is saved, and a second one is entered and saved while
  the closing dialog still shows its form. The second draft has no coordinates, the
  save stores it all the same, and the effect, having added the marker of the first
  spot again, throws at the second record: two successful saves, two markers and not
  three, and an error that nothing catches.
\<close>

theorem save_without_coordinates_breaks_markers:
  "successfulSaves saveDuringExit (mount Constructed initial) = 2 \<and>
   map name (spots (session Constructed saveDuringExit)) = [''Lake A'', ''Pond B''] \<and>
   map longitude (spots (session Constructed saveDuringExit)) = [Some (Fin 24), None] \<and>
   map latitude (spots (session Constructed saveDuringExit)) = [Some (Fin 60), None] \<and>
   map popup (markersAdded (session Constructed saveDuringExit)) =
     [(''Lake A'', Fin 12, High), (''Lake A'', Fin 12, High)] \<and>
   length (markersAdded (session Constructed saveDuringExit)) = 2 \<and>
   uncaught (session Constructed saveDuringExit) = Some InvalidLngLat"
  by (simp add: saveDuringExit_def model_defs toString.simps)

subsection \<open>Cancelling and the draft\<close>

text \<open>
  Claim C4. For every state with the dialog open and any draft, the cancel action
  discards the draft: the draft record is reset or removed. The component does not do
  so: the handler of the Cancel button closes the dialog and leaves the draft in the
  state, where the save resets it. In the session below the draft is filled in and
  cancelled; the draft is still there, whole, and a click on Save, which the closing
  dialog still shows, stores the cancelled draft as a spot.
\<close>

theorem cancel_then_save_stores_cancelled_draft:
  "isDialogOpen (session Constructed fillAndCancel) = False \<and>
   newSpot (session Constructed fillAndCancel) =
     Some \<lparr>id_opt = None, name_opt = Some ''Lake A'', transparency_opt = Some (Fin 12),
           cleanliness_opt = Some High, longitude_opt = Some (Fin 24),
           latitude_opt = Some (Fin 60)\<rparr> \<and>
   spots (session Constructed fillAndCancel) = [] \<and>
   spots (session Constructed (fillAndCancel @ [SaveClick 1000])) =
     [\<lparr>id' = ''1000'', name = ''Lake A'', transparency = Fin 12, cleanliness = High,
       longitude = Some (Fin 24), latitude = Some (Fin 60)\<rparr>]"
  by (simp add: fillAndCancel_def model_defs toString.simps)

subsection \<open>Cancelling keeps the spot list\<close>

text \<open>
  Claim C5. For every state and every draft, the cancel action leaves the spot list as
  it is (and the markers on the map with it); so does closing the dialog by
  \<^verbatim>\<open>onClose\<close>.
\<close>

theorem cancel_keeps_spots:
  "spots (dispatch CancelClick s) = spots s \<and>
   spots (step CancelClick s) = spots s \<and>
   markersAdded (dispatch CancelClick s) = markersAdded s \<and>
   spots (dispatch DialogClose s) = spots s \<and>
   spots (step DialogClose s) = spots s"
  by (simp add: step_def dispatch_other onCancel_def onClose_def markersAdded_def)

text \<open>Cancelling a second draft keeps the one record saved before.\<close>

theorem cancel_keeps_spots_witness:
  "spots (step CancelClick
     (session Constructed (fillLakeA (Fin 12) @ [SaveClick 1000] @ fillLakeA (Fin 7)))) =
     [\<lparr>id' = ''1000'', name = ''Lake A'', transparency = Fin 12, cleanliness = High,
       longitude = Some (Fin 24), latitude = Some (Fin 60)\<rparr>]"
proof -
  have "spots (session Constructed (fillLakeA (Fin 12) @ [SaveClick 1000] @ fillLakeA (Fin 7))) =
     [\<lparr>id' = ''1000'', name = ''Lake A'', transparency = Fin 12, cleanliness = High,
       longitude = Some (Fin 24), latitude = Some (Fin 60)\<rparr>]"
    by (simp add: fillLakeA_def model_defs toString.simps)
  with cancel_keeps_spots
    [of "session Constructed (fillLakeA (Fin 12) @ [SaveClick 1000] @ fillLakeA (Fin 7))"]
  show ?thesis by simp
qed

subsection \<open>The spot list is append-only\<close>

text \<open>
  Claim C6. Every operation of the component leaves the spot list as it is or appends
  one record at its end: every handler, whether called in any state or only when its
  control is on the page, and with them the mount and the unmount. Hence the list at any
  moment of a run is a prefix of the list at every later moment: no record is changed,
  moved or removed while the session lasts.
\<close>

theorem spots_append_only:
  "(spots (dispatch e s) = spots s \<or> (\<exists>r. spots (dispatch e s) = spots s @ [r])) \<and>
   (spots (step e s) = spots s \<or> (\<exists>r. spots (step e s) = spots s @ [r])) \<and>
   spots (mount c s) = spots s \<and>
   spots (unmount s) = spots s \<and>
   prefix (spots s) (spots (run evs s)) \<and>
   take (length (spots s)) (spots (run evs s)) = spots s"
proof -
  have "take (length (spots s)) (spots (run evs s)) = spots s"
    using prefix_spots_run [of s evs] by (auto simp add: prefix_def)
  then show ?thesis
    using spots_handle_cases [of e s] spots_step_cases [of e s] prefix_spots_run [of s evs]
    by (simp add: spots_dispatch spots_mount spots_unmount)
qed

text \<open>
  The session with two saves, cut after the first one: the record saved first is still
  the first one, unchanged, after the second save.
\<close>

theorem spots_append_only_witness:
  "spots (session Constructed (fillLakeA (Fin 12) @ [SaveClick 1000])) =
     [\<lparr>id' = ''1000'', name = ''Lake A'', transparency = Fin 12, cleanliness = High,
       longitude = Some (Fin 24), latitude = Some (Fin 60)\<rparr>] \<and>
   take 1 (spots (session Constructed twoSaves)) =
     [\<lparr>id' = ''1000'', name = ''Lake A'', transparency = Fin 12, cleanliness = High,
       longitude = Some (Fin 24), latitude = Some (Fin 60)\<rparr>] \<and>
   length (spots (session Constructed twoSaves)) = 2"
proof -
  let ?s1 = "session Constructed (fillLakeA (Fin 12) @ [SaveClick 1000])"
  let ?rest = "[MapClick (Fin 25) (Fin 61), NameChange ''Pond B'', TransparencyChange (Fin 7),
      CleanlinessChange Low, SaveClick 2000]"
  have r: "run ?rest ?s1 = session Constructed twoSaves"
    by (simp only: session_def twoSaves_def run_append)
  have "take (length (spots ?s1)) (spots (run ?rest ?s1)) = spots ?s1"
    using spots_append_only [of "SaveClick 1000" ?s1 Constructed ?rest] by blast
  then show ?thesis
    by (simp add: r session_fillLakeA_save initial_def session_twoSaves)
qed

subsection \<open>Clicking the map\<close>

text \<open>
  Claim C7. For every click on the map at \<open>(lng, lat)\<close> the click handler sets the draft
  to the record with longitude \<open>lng\<close>, latitude \<open>lat\<close> and no other field, opens the
  dialog and changes nothing else; the handler runs whenever the map object exists.
\<close>

theorem map_click_opens_dialog_with_coordinates:
  "dispatch (MapClick lng lat) s =
     s\<lparr>newSpot :=
         Some \<lparr>id_opt = None, name_opt = None, transparency_opt = None,
               cleanliness_opt = None, longitude_opt = Some lng, latitude_opt = Some lat\<rparr>,
       isDialogOpen := True\<rparr> \<and>
   (map_current s \<noteq> None \<longrightarrow> step (MapClick lng lat) s = dispatch (MapClick lng lat) s)"
  by (simp add: step_def dispatch_other onMapClick_def emptyPartial_def)

text \<open>
  A click at 25, 61 while an older draft is in the state: the older draft is replaced
  by the two coordinates.
\<close>

theorem map_click_opens_dialog_with_coordinates_witness:
  "map_current (session Constructed (fillLakeA (Fin 12))) \<noteq> None \<and>
   newSpot (step (MapClick (Fin 25) (Fin 61)) (session Constructed (fillLakeA (Fin 12)))) =
     Some \<lparr>id_opt = None, name_opt = None, transparency_opt = None,
           cleanliness_opt = None, longitude_opt = Some (Fin 25),
           latitude_opt = Some (Fin 61)\<rparr> \<and>
   isDialogOpen (step (MapClick (Fin 25) (Fin 61)) (session Constructed (fillLakeA (Fin 12))))"
proof -
  have m: "map_current (session Constructed (fillLakeA (Fin 12))) \<noteq> None"
    by (simp add: session_fillLakeA)
  from m map_click_opens_dialog_with_coordinates
    [of "Fin 25" "Fin 61" "session Constructed (fillLakeA (Fin 12))"]
  show ?thesis by simp
qed

subsection \<open>Errors of the map widget\<close>

text \<open>
  Claim C8, as amended. When the construction of the map throws, or the map reports an
  error through its error event, the error is caught and stored as a message string,
  and the component goes on: the mount stores the message of the thrown error, or the
  fixed text for a value that is not an \<^verbatim>\<open>Error\<close>, and the handler of the error event
  stores the reported message, or the fixed text in place of a missing or empty one.
  Either way the spot list, the draft and the flag of the dialog are left as they were.
  After a reported error the component works as before: no handler reads the stored
  error, so every other event is possible in the same states and has the same result
  with the error as without it. After a failed construction it does not: there is no
  map object and no listener for clicks, no event can occur, the dialog never opens
  and the spot list stays empty. Nothing is stated of an error thrown by another call
  of the widget.
\<close>

theorem map_errors_are_captured:
  "(\<not> mapInitializedRef s \<and> mapContainer_current s \<longrightarrow>
      mapError (mount (Throws x) s) =
        Some (case x of ErrorObject m \<Rightarrow> m | OtherValue \<Rightarrow> ''An unknown error occurred'') \<and>
      spots (mount (Throws x) s) = spots s \<and>
      newSpot (mount (Throws x) s) = newSpot s \<and>
      isDialogOpen (mount (Throws x) s) = isDialogOpen s) \<and>
   uncaught (mount (Throws x) initial) = None \<and>
   dispatch (MapErrorEvent msg) s =
     s\<lparr>mapError :=
         Some (case msg of None \<Rightarrow> ''An unknown error occurred''
               | Some m \<Rightarrow> if m = [] then ''An unknown error occurred'' else m)\<rparr> \<and>
   ((\<forall>m. e \<noteq> MapErrorEvent m) \<longrightarrow>
      enabled e (s\<lparr>mapError := y\<rparr>) = enabled e s \<and>
      dispatch e (s\<lparr>mapError := y\<rparr>) = (dispatch e s)\<lparr>mapError := y\<rparr>) \<and>
   enabled e (mount (Throws x) initial) = False \<and>
   session (Throws x) evs = mount (Throws x) initial \<and>
   isDialogOpen (session (Throws x) evs) = False \<and>
   spots (session (Throws x) evs) = []"
proof -
  have a: "\<not> mapInitializedRef s \<and> mapContainer_current s \<longrightarrow>
      mapError (mount (Throws x) s) =
        Some (case x of ErrorObject m \<Rightarrow> m | OtherValue \<Rightarrow> ''An unknown error occurred'') \<and>
      spots (mount (Throws x) s) = spots s \<and>
      newSpot (mount (Throws x) s) = newSpot s \<and>
      isDialogOpen (mount (Throws x) s) = isDialogOpen s"
    by (simp add: mount_def initializeMap_def mapError_spotsEffect spots_spotsEffect
        newSpot_spotsEffect isDialogOpen_spotsEffect unknownError_def split: thrown.splits)
  have b: "dispatch (MapErrorEvent msg) s = onMapError msg s"
    by (simp add: dispatch_other)
  have c: "enabled e (mount (Throws x) initial) = False"
    unfolding mount_Throws_initial by (cases e) (simp_all add: initial_def)
  have d: "isDialogOpen (mount (Throws x) initial) = False"
    "spots (mount (Throws x) initial) = []" "uncaught (mount (Throws x) initial) = None"
    unfolding mount_Throws_initial by (simp_all add: initial_def)
  show ?thesis
    using a c d
    by (simp add: b onMapError_def unknownError_def dispatch_mapError_update
        enabled_mapError_update failed_init_inert split: option.splits)
qed

text \<open>
  A construction that throws an \<^verbatim>\<open>Error\<close> at the mount; an error event without a
  message while a draft is open; and the save of that draft, which appends its record
  with the error stored as it does without.
\<close>

theorem map_errors_are_captured_witness:
  "mapError (mount (Throws (ErrorObject ''Failed to initialize WebGL'')) initial) =
     Some ''Failed to initialize WebGL'' \<and>
   spots (mount (Throws (ErrorObject ''Failed to initialize WebGL'')) initial) = [] \<and>
   mapError (dispatch (MapErrorEvent None) (session Constructed (fillLakeA (Fin 12)))) =
     Some ''An unknown error occurred'' \<and>
   isDialogOpen (dispatch (MapErrorEvent None) (session Constructed (fillLakeA (Fin 12)))) \<and>
   spots (dispatch (SaveClick 1000)
     ((session Constructed (fillLakeA (Fin 12)))\<lparr>mapError := Some ''An unknown error occurred''\<rparr>)) =
     [\<lparr>id' = ''1000'', name = ''Lake A'', transparency = Fin 12, cleanliness = High,
       longitude = Some (Fin 24), latitude = Some (Fin 60)\<rparr>]"
proof -
  let ?s = "session Constructed (fillLakeA (Fin 12))"
  let ?y = "Some ''An unknown error occurred''"
  have i: "\<not> mapInitializedRef initial \<and> mapContainer_current initial"
    by (simp add: initial_def)
  have n: "\<forall>m. SaveClick 1000 \<noteq> MapErrorEvent m"
    by simp
  have a: "mapError (mount (Throws (ErrorObject ''Failed to initialize WebGL'')) initial) =
      Some ''Failed to initialize WebGL'' \<and>
      spots (mount (Throws (ErrorObject ''Failed to initialize WebGL'')) initial) = spots initial"
    using map_errors_are_captured
      [of initial "ErrorObject ''Failed to initialize WebGL''" None "SaveClick 1000" ?y] i
    by simp
  have b: "dispatch (MapErrorEvent None) ?s = ?s\<lparr>mapError := ?y\<rparr>"
    using map_errors_are_captured [of ?s OtherValue None "SaveClick 1000" ?y]
    by simp
  have c: "dispatch (SaveClick 1000) (?s\<lparr>mapError := ?y\<rparr>) =
      (dispatch (SaveClick 1000) ?s)\<lparr>mapError := ?y\<rparr>"
    using map_errors_are_captured [of ?s OtherValue None "SaveClick 1000" ?y] n
    by blast
  have d: "spots (dispatch (SaveClick 1000) ?s) =
     [\<lparr>id' = ''1000'', name = ''Lake A'', transparency = Fin 12, cleanliness = High,
       longitude = Some (Fin 24), latitude = Some (Fin 60)\<rparr>]"
    by (simp add: session_fillLakeA initial_def dispatch_def commit_def handleSaveSpot_def
        spotsEffect_def addMarker_def validSpot_def toString.simps)
  have e: "spots (dispatch (SaveClick 1000) (?s\<lparr>mapError := ?y\<rparr>)) =
     [\<lparr>id' = ''1000'', name = ''Lake A'', transparency = Fin 12, cleanliness = High,
       longitude = Some (Fin 24), latitude = Some (Fin 60)\<rparr>]"
    unfolding c by (simp add: d)
  have f: "spots initial = []" and g: "isDialogOpen ?s"
    by (simp_all add: initial_def session_fillLakeA)
  have h: "mapError (dispatch (MapErrorEvent None) ?s) = ?y"
    "isDialogOpen (dispatch (MapErrorEvent None) ?s)"
    unfolding b using g by simp_all
  from a e f h show ?thesis
    by simp
qed

text \<open>
  Claim C8 as it is written fails after a failed construction: the click on the map,
  the three fields and the save that store a spot when the map was constructed do
  nothing at all when its construction threw. The dialog is not opened, no draft is
  made and the spot list stays empty.
\<close>

theorem failed_construction_counterexample:
  "mapError (session (Throws (ErrorObject ''Failed to initialize WebGL''))
     (fillLakeA (Fin 12) @ [SaveClick 1000])) = Some ''Failed to initialize WebGL'' \<and>
   isDialogOpen (session (Throws (ErrorObject ''Failed to initialize WebGL''))
     [MapClick (Fin 24) (Fin 60)]) = False \<and>
   newSpot (session (Throws (ErrorObject ''Failed to initialize WebGL''))
     (fillLakeA (Fin 12))) = None \<and>
   spots (session (Throws (ErrorObject ''Failed to initialize WebGL''))
     (fillLakeA (Fin 12) @ [SaveClick 1000])) = [] \<and>
   spots (session Constructed (fillLakeA (Fin 12) @ [SaveClick 1000])) =
     [\<lparr>id' = ''1000'', name = ''Lake A'', transparency = Fin 12, cleanliness = High,
       longitude = Some (Fin 24), latitude = Some (Fin 60)\<rparr>]"
  unfolding failed_init_inert mount_Throws_initial
  by (simp add: initial_def session_fillLakeA_save)

subsection \<open>What the stored records hold\<close>

text \<open>
  Claim C9. Every record that is ever in the spot list of a session has a non-empty name
  and a transparency that is neither \<^verbatim>\<open>0\<close> nor \<^verbatim>\<open>NaN\<close>: the condition of
  \<^verbatim>\<open>handleSaveSpot\<close> tests truthiness, so that a save with a draft whose name is the
  empty string or whose transparency is \<^verbatim>\<open>0\<close> (the value an emptied number field
  delivers) changes nothing at all.
\<close>

theorem stored_spots_have_name_and_transparency:
  "(\<forall>r\<in>set (spots (session c evs)).
      name r \<noteq> [] \<and> transparency r \<noteq> Fin 0 \<and> transparency r \<noteq> NaN) \<and>
   (newSpot s = Some d \<and> (name_opt d = Some [] \<or> transparency_opt d = Some (Fin 0)) \<longrightarrow>
      dispatch (SaveClick now) s = s)"
proof -
  have "newSpot s = Some d \<and> (name_opt d = Some [] \<or> transparency_opt d = Some (Fin 0)) \<longrightarrow>
      \<not> saveGuard (newSpot s)"
    by (auto simp add: saveGuard_def)
  then show ?thesis
    using accepted_session [of c evs]
    by (auto simp add: accepted_def truthyNumber_iff dispatch_save_rejects)
qed

text \<open>
  The session with two saves: both stored records have a name and a transparency; and
  the draft with transparency 0 is rejected.
\<close>

theorem stored_spots_have_name_and_transparency_witness:
  "map name (spots (session Constructed twoSaves)) = [''Lake A'', ''Pond B''] \<and>
   map transparency (spots (session Constructed twoSaves)) = [Fin 12, Fin 7] \<and>
   list_all (\<lambda>r. name r \<noteq> [] \<and> transparency r \<noteq> Fin 0 \<and> transparency r \<noteq> NaN)
     (spots (session Constructed twoSaves)) \<and>
   transparency_opt (the (newSpot (session Constructed (fillLakeA (Fin 0))))) = Some (Fin 0) \<and>
   dispatch (SaveClick 1000) (session Constructed (fillLakeA (Fin 0))) =
     session Constructed (fillLakeA (Fin 0))"
proof -
  let ?s = "session Constructed (fillLakeA (Fin 0))"
  let ?d = "\<lparr>id_opt = None, name_opt = Some ''Lake A'', transparency_opt = Some (Fin 0),
             cleanliness_opt = Some High, longitude_opt = Some (Fin 24),
             latitude_opt = Some (Fin 60)\<rparr>"
  have h: "newSpot ?s = Some ?d \<and> (name_opt ?d = Some [] \<or> transparency_opt ?d = Some (Fin 0))"
    by (simp add: session_fillLakeA)
  from stored_spots_have_name_and_transparency [of Constructed twoSaves ?s ?d 1000] h
  have "list_all (\<lambda>r. name r \<noteq> [] \<and> transparency r \<noteq> Fin 0 \<and> transparency r \<noteq> NaN)
     (spots (session Constructed twoSaves))" and "dispatch (SaveClick 1000) ?s = ?s"
    by (simp_all add: list_all_iff)
  then show ?thesis
    by (simp add: session_twoSaves session_fillLakeA)
qed

subsection \<open>Saving is all or nothing\<close>

text \<open>
  Claim C10. Saving is all or nothing. When the condition of \<^verbatim>\<open>handleSaveSpot\<close> fails,
  the whole state is left as it was: the spot list, the draft and the flag of the
  dialog (an open dialog stays open), and with them the map and its markers. When the
  condition holds, the same update appends the record, sets the flag of the dialog to
  false and resets the draft to \<^verbatim>\<open>null\<close>.
\<close>

theorem save_is_atomic:
  "(\<not> saveGuard (newSpot s) \<longrightarrow> dispatch (SaveClick now) s = s) \<and>
   (saveGuard (newSpot s) \<longrightarrow>
      (\<exists>r. spots (dispatch (SaveClick now) s) = spots s @ [r]) \<and>
      isDialogOpen (dispatch (SaveClick now) s) = False \<and>
      newSpot (dispatch (SaveClick now) s) = None)"
  using dispatch_save_accepts [of s now]
  by (auto simp add: dispatch_save_rejects spots_spotsEffect isDialogOpen_spotsEffect
      newSpot_spotsEffect)

text \<open>
  A draft with transparency 0 fails the condition and the open dialog stays open with
  its draft; the draft with transparency 12 passes it.
\<close>

theorem save_is_atomic_witness:
  "\<not> saveGuard (newSpot (session Constructed (fillLakeA (Fin 0)))) \<and>
   dispatch (SaveClick 1000) (session Constructed (fillLakeA (Fin 0))) =
     session Constructed (fillLakeA (Fin 0)) \<and>
   isDialogOpen (session Constructed (fillLakeA (Fin 0))) \<and>
   saveGuard (newSpot (session Constructed (fillLakeA (Fin 12)))) \<and>
   length (spots (dispatch (SaveClick 1000) (session Constructed (fillLakeA (Fin 12))))) = 1 \<and>
   isDialogOpen (dispatch (SaveClick 1000) (session Constructed (fillLakeA (Fin 12)))) = False \<and>
   newSpot (dispatch (SaveClick 1000) (session Constructed (fillLakeA (Fin 12)))) = None"
proof -
  have a: "\<not> saveGuard (newSpot (session Constructed (fillLakeA (Fin 0))))"
    by (simp add: session_fillLakeA saveGuard_def)
  have b: "saveGuard (newSpot (session Constructed (fillLakeA (Fin 12))))"
    by (simp add: session_fillLakeA saveGuard_def)
  have c: "spots (session Constructed (fillLakeA (Fin 12))) = []"
    by (simp add: session_fillLakeA initial_def)
  have d: "isDialogOpen (session Constructed (fillLakeA (Fin 0)))"
    by (simp add: session_fillLakeA)
  from a b c d
    save_is_atomic [of "session Constructed (fillLakeA (Fin 0))" 1000]
    save_is_atomic [of "session Constructed (fillLakeA (Fin 12))" 1000]
  show ?thesis by auto
qed

end
